theory Spec2Isabelle
  imports Complex_Main "HOL-Library.Word" "HOL-Library.AList" "HOL-Library.Char_ord"
    "HOL-Library.List_Lexorder"
begin

unbundle bit_operations_syntax

section \<open>Common data\<close>

text \<open>
  Bytes are 8-bit words, byte strings are lists of them. Python exceptions are values of
  \<open>error\<close>; a function that can raise returns \<open>error + 'a\<close> with \<open>Inl\<close> for the
  exception.  \<open>OSError\<close> is a failed file operation, \<open>LibraryError\<close> an exception raised
  inside a third-party decoder (zstandard, lzma).
\<close>

type_synonym byte = "8 word"
type_synonym bytes = "byte list"

datatype error =
    ValueError string
  | KeyError string
  | IndexError
  | AttributeError
  | TypeError
  | OverflowError
  | ZeroDivisionError
  | OSError
  | LibraryError

text \<open>
  Values that travel through \<open>json.dump\<close> / \<open>json.load\<close>.  A Python dict keeps its
  insertion order and has unique keys: it is an association list, read with \<open>map_of\<close>,
  written with \<open>AList.update\<close> (an existing key keeps its place, a new key goes last) and
  popped with \<open>AList.delete\<close>.  A finite float is carried by its exact rational value.
\<close>

datatype json =
    JNull
  | JBool bool
  | JInt int
  | JFloat rat
  | JStr string
  | JArr "json list"
  | JObj "(string \<times> json) list"

section \<open>SHA-256, hexadecimal strings, text encoding\<close>

text \<open>
  \<open>hashlib.sha256\<close> is a parameter of the model, a function from byte strings to 256-bit
  words.  \<open>digest\<close> is the 32-byte string \<open>.digest()\<close> returns (big-endian), \<open>hexdigest\<close>
  its lower-case hexadecimal form.
\<close>

definition word_bytes :: "256 word \<Rightarrow> bytes" where
  "word_bytes w = map (\<lambda>i. ucast (drop_bit (8 * (31 - i)) w)) [0..<32]"

definition digest :: "(bytes \<Rightarrow> 256 word) \<Rightarrow> bytes \<Rightarrow> bytes" where
  "digest sha256 x = word_bytes (sha256 x)"

definition hex_digit :: "nat \<Rightarrow> char" where
  "hex_digit d = char_of (if d < 10 then 48 + d else 87 + d)"

definition hex :: "bytes \<Rightarrow> string" where
  "hex bs = concat (map (\<lambda>b. [hex_digit (unat b div 16), hex_digit (unat b mod 16)]) bs)"

definition hexdigest :: "(bytes \<Rightarrow> 256 word) \<Rightarrow> bytes \<Rightarrow> string" where
  "hexdigest sha256 x = hex (digest sha256 x)"

text \<open>
  \<open>bytes.fromhex\<close>: two hexadecimal digits per byte, upper or lower case; ASCII whitespace
  is skipped between bytes; anything else raises \<open>ValueError\<close>.
\<close>

definition hex_value :: "char \<Rightarrow> nat option" where
  "hex_value c =
     (let v = (of_char c :: nat) in
      if 48 \<le> v \<and> v \<le> 57 then Some (v - 48)
      else if 97 \<le> v \<and> v \<le> 102 then Some (v - 87)
      else if 65 \<le> v \<and> v \<le> 70 then Some (v - 55)
      else None)"

definition is_space :: "char \<Rightarrow> bool" where
  "is_space c = (let v = (of_char c :: nat) in v = 32 \<or> (9 \<le> v \<and> v \<le> 13))"

fun fromhex :: "string \<Rightarrow> error + bytes" where
  "fromhex [] = Inr []"
| "fromhex [c] =
     (if is_space c then Inr []
      else Inl (ValueError ''non-hexadecimal number found in fromhex() arg''))"
| "fromhex (c # d # cs) =
     (if is_space c then fromhex (d # cs)
      else case (hex_value c, hex_value d) of
             (Some h, Some l) \<Rightarrow>
               (case fromhex cs of
                  Inl e \<Rightarrow> Inl e
                | Inr bs \<Rightarrow> Inr (of_nat (16 * h + l) # bs))
           | _ \<Rightarrow> Inl (ValueError ''non-hexadecimal number found in fromhex() arg''))"

text \<open>\<open>str.encode\<close> of a string whose characters are single bytes.\<close>

definition str_encode :: "string \<Rightarrow> bytes" where
  "str_encode s = map (\<lambda>c. of_nat (of_char c)) s"

text \<open>
  A small stand-in for the hash function, to run the definitions on.  It is not SHA-256
  and no theorem about the program depends on it.
\<close>

definition sum_hash :: "bytes \<Rightarrow> 256 word" where
  "sum_hash bs = foldl (\<lambda>h b. 257 * h + ucast b + 1) 0 bs"

section \<open>Compression codecs (codecs/compression.py)\<close>

text \<open>
  \<open>decompress_data\<close>: the two library decompressors are parameters.  \<open>codec_info["codec"]\<close>
  raises \<open>KeyError\<close> when the key is missing; the last branch is an \<open>else\<close>.
\<close>

definition decompress_data ::
  "(bytes \<Rightarrow> error + bytes) \<Rightarrow> (bytes \<Rightarrow> error + bytes) \<Rightarrow>
   bytes \<Rightarrow> (string \<times> json) list \<Rightarrow> error + bytes" where
  "decompress_data zstd_decompress lzma_decompress data codec_info =
     (case map_of codec_info ''codec'' of
        None \<Rightarrow> Inl (KeyError ''codec'')
      | Some codec \<Rightarrow>
          if codec = JStr ''zstd'' then zstd_decompress data
          else if codec = JStr ''xz'' then lzma_decompress data
          else Inr data)"

section \<open>Voxel mapper (mapping/voxel_map.py)\<close>

text \<open>
  The mapper object.  Symbols are Python integers; the two dictionaries are association
  lists keyed by symbol.  Angles (degrees) and retardances (wavelengths) are the exact
  values of the float literals of the source (\<open>i * 22.5\<close> is exact in binary floating point).
\<close>

record VoxelMapper =
  mode :: string
  bits_per_voxel :: nat
  orientations :: nat
  retardance_levels :: nat
  num_symbols :: nat
  gray_codes :: "(int \<times> int) list"
  symbol_table :: "(int \<times> real \<times> real) list"

definition generate_gray_codes :: "string \<Rightarrow> (int \<times> int) list" where
  "generate_gray_codes md =
     (if md = ''3bit''
      then [(0, 0), (1, 1), (2, 3), (3, 2), (4, 6), (5, 7), (6, 5), (7, 4)]
      else map (\<lambda>i. (int i, int i XOR drop_bit 1 (int i))) [0..<32])"

definition build_symbol_table :: "string \<Rightarrow> (int \<times> real \<times> real) list" where
  "build_symbol_table md =
     (if md = ''3bit''
      then (let angles = [0, 45, 90, 135]; retardances = [0.25, 0.75]
            in map (\<lambda>symbol. (int symbol, (angles ! (symbol mod 4), retardances ! (symbol div 4))))
                 [0..<8])
      else (let angles = map (\<lambda>i. real i * 22.5) [0..<8]; retardances = [0.25, 0.5, 0.75, 1.0]
            in map (\<lambda>symbol. (int symbol, (angles ! (symbol mod 8), retardances ! (symbol div 8))))
                 [0..<32]))"

definition VoxelMapper_init :: "string \<Rightarrow> error + VoxelMapper" where
  "VoxelMapper_init md =
     (if md = ''3bit'' then
        Inr \<lparr>mode = md, bits_per_voxel = 3, orientations = 4, retardance_levels = 2,
             num_symbols = 8, gray_codes = generate_gray_codes md,
             symbol_table = build_symbol_table md\<rparr>
      else if md = ''5bit'' then
        Inr \<lparr>mode = md, bits_per_voxel = 5, orientations = 8, retardance_levels = 4,
             num_symbols = 32, gray_codes = generate_gray_codes md,
             symbol_table = build_symbol_table md\<rparr>
      else Inl (ValueError ''Unknown mode''))"

text \<open>\<open>symbols_to_bits\<close>: every symbol is written out big-endian on \<open>bits_per_voxel\<close> bits.\<close>

definition symbols_to_bits :: "VoxelMapper \<Rightarrow> int list \<Rightarrow> int list" where
  "symbols_to_bits M symbols =
     concat (map (\<lambda>symbol. map (\<lambda>i. drop_bit (bits_per_voxel M - 1 - i) symbol AND 1)
                                [0..<bits_per_voxel M]) symbols)"

text \<open>
  \<open>symbols_to_voxels\<close>: one table lookup per symbol; a symbol that is not a key takes the
  entry of symbol 0 (a \<open>KeyError\<close> if the table had no key 0).
\<close>

definition voxel_of :: "VoxelMapper \<Rightarrow> int \<Rightarrow> error + real \<times> real" where
  "voxel_of M symbol =
     (case map_of (symbol_table M) symbol of
        Some v \<Rightarrow> Inr v
      | None \<Rightarrow> (case map_of (symbol_table M) 0 of
                   Some v \<Rightarrow> Inr v
                 | None \<Rightarrow> Inl (KeyError ''0'')))"

fun symbols_to_voxels :: "VoxelMapper \<Rightarrow> int list \<Rightarrow> error + real list \<times> real list" where
  "symbols_to_voxels M [] = Inr ([], [])"
| "symbols_to_voxels M (symbol # symbols) =
     (case voxel_of M symbol of
        Inl e \<Rightarrow> Inl e
      | Inr (a, r) \<Rightarrow>
          (case symbols_to_voxels M symbols of
             Inl e \<Rightarrow> Inl e
           | Inr (angles, retardances) \<Rightarrow> Inr (a # angles, r # retardances)))"

text \<open>
  The distance of two angles as \<open>voxels_to_symbols\<close> measures it (orientation is taken
  modulo 180 degrees).
\<close>

definition angle_diff :: "real \<Rightarrow> real \<Rightarrow> real" where
  "angle_diff angle ref_angle =
     min \<bar>angle - ref_angle\<bar> (min \<bar>angle - ref_angle + 180\<bar> \<bar>angle - ref_angle - 180\<bar>)"

text \<open>
  Nearest neighbours, as the specification words them: among the voxels of the symbol
  table, \<open>t\<close> is a nearest neighbour of \<open>s\<close> in angle when both have the same retardance
  and no other voxel of that retardance is closer to \<open>s\<close> in angle; in retardance, when
  both have the same angle and no other voxel of that angle is closer in retardance.
\<close>

definition nearest_in_angle :: "VoxelMapper \<Rightarrow> int \<Rightarrow> int \<Rightarrow> bool" where
  "nearest_in_angle M s t =
     (case (map_of (symbol_table M) s, map_of (symbol_table M) t) of
        (Some (a, r), Some (a', r')) \<Rightarrow>
          s \<noteq> t \<and> r = r' \<and>
          list_all (\<lambda>(u, (a'', r'')). angle_diff a a' \<le> angle_diff a a'')
            (filter (\<lambda>(u, (a'', r'')). u \<noteq> s \<and> r'' = r) (symbol_table M))
      | _ \<Rightarrow> False)"

definition nearest_in_retardance :: "VoxelMapper \<Rightarrow> int \<Rightarrow> int \<Rightarrow> bool" where
  "nearest_in_retardance M s t =
     (case (map_of (symbol_table M) s, map_of (symbol_table M) t) of
        (Some (a, r), Some (a', r')) \<Rightarrow>
          s \<noteq> t \<and> a = a' \<and>
          list_all (\<lambda>(u, (a'', r'')). \<bar>r - r'\<bar> \<le> \<bar>r - r''\<bar>)
            (filter (\<lambda>(u, (a'', r'')). u \<noteq> s \<and> a'' = a) (symbol_table M))
      | _ \<Rightarrow> False)"

text \<open>The number of positions in which two bit strings differ.\<close>

definition hamming :: "int list \<Rightarrow> int list \<Rightarrow> nat" where
  "hamming xs ys = length (filter (\<lambda>(x, y). x \<noteq> y) (zip xs ys))"

text \<open>
  The Gray code the table \<open>gray_codes\<close> assigns to a symbol, written out on
  \<open>bits_per_voxel\<close> bits.
\<close>

definition gray_bits :: "VoxelMapper \<Rightarrow> int \<Rightarrow> int list option" where
  "gray_bits M s = map_option (\<lambda>g. symbols_to_bits M [g]) (map_of (gray_codes M) s)"

section \<open>Interleaver (codecs/interleave.py)\<close>

text \<open>
  numpy's random generator is a parameter of the model: \<open>default_rng seed\<close> is the fresh
  generator state (numpy raises \<open>ValueError\<close> on a negative seed), and
  \<open>permutation g n\<close> is the array \<open>Generator.permutation(n)\<close> returns in state \<open>g\<close> together
  with the state it leaves behind.  The interleaver object stores the generator; a call of
  \<open>block_interleave\<close> advances it.
\<close>

record 'g Interleaver =
  span :: int
  depth :: int
  seed :: int
  rng :: 'g

definition Interleaver_init ::
  "(int \<Rightarrow> error + 'g) \<Rightarrow> int \<Rightarrow> int \<Rightarrow> int \<Rightarrow> error + 'g Interleaver" where
  "Interleaver_init default_rng sp dp sd =
     (case default_rng sd of
        Inl e \<Rightarrow> Inl e
      | Inr g \<Rightarrow> Inr \<lparr>span = sp, depth = dp, seed = sd, rng = g\<rparr>)"

text \<open>
  \<open>block_interleave\<close> returns \<open>(data[perm], perm)\<close>; the fancy index \<open>data[perm]\<close> raises
  \<open>IndexError\<close> on an index out of range.  The second component is the updated object.
\<close>

definition block_interleave ::
  "('g \<Rightarrow> nat \<Rightarrow> nat list \<times> 'g) \<Rightarrow> 'g Interleaver \<Rightarrow> 'a list \<Rightarrow>
   error + ('a list \<times> nat list) \<times> 'g Interleaver" where
  "block_interleave permutation I xs =
     (case permutation (rng I) (length xs) of
        (perm, g') \<Rightarrow>
          if list_all (\<lambda>j. j < length xs) perm
          then Inr ((map (\<lambda>j. xs ! j) perm, perm), I\<lparr>rng := g'\<rparr>)
          else Inl IndexError)"

text \<open>
  \<open>decode_archive\<close> (pipeline.py, lines 263-264) does not call \<open>block_interleave\<close>: it
  builds a generator of its own from the seed stored in the manifest and draws one
  permutation of the length of the bit stream it has read.
\<close>

definition regenerate_permutation ::
  "(int \<Rightarrow> error + 'g) \<Rightarrow> ('g \<Rightarrow> nat \<Rightarrow> nat list \<times> 'g) \<Rightarrow> int \<Rightarrow> nat \<Rightarrow> error + nat list" where
  "regenerate_permutation default_rng permutation sd len =
     (case default_rng sd of
        Inl e \<Rightarrow> Inl e
      | Inr g \<Rightarrow> Inr (fst (permutation g len)))"

text \<open>What numpy promises of \<open>permutation(n)\<close>: a rearrangement of \<open>0, ..., n - 1\<close>.\<close>

definition is_permutation_of_range :: "nat list \<Rightarrow> nat \<Rightarrow> bool" where
  "is_permutation_of_range p len = (distinct p \<and> set p = {0..<len})"

text \<open>
  A small generator that keeps the promise, to run the definitions on: the state is a
  counter, and the permutation of state \<open>g\<close> is the rotation by \<open>g\<close>.
\<close>

definition counter_rng :: "int \<Rightarrow> error + nat" where
  "counter_rng sd = (if sd < 0 then Inl (ValueError ''expected non-negative integer'') else Inr (nat sd))"

definition rotation_permutation :: "nat \<Rightarrow> nat \<Rightarrow> nat list \<times> nat" where
  "rotation_permutation g len = (rotate g [0..<len], Suc g)"

section \<open>LDPC codec (codecs/ecc_ldpc.py)\<close>


definition generate_parity_matrix ::
  "(nat \<Rightarrow> nat \<Rightarrow> nat list) \<Rightarrow> nat \<Rightarrow> nat \<Rightarrow> error + nat list list" where
  "generate_parity_matrix choice nn mm =
     (if 0 < nn \<and> mm < 3 then Inl (ValueError ''Cannot take a larger sample than population'')
      else Inr (map (\<lambda>r. map (\<lambda>i. if r \<in> set (choice mm i) then 1 else 0) [0..<nn]) [0..<mm]))"











text \<open>What numpy promises of \<open>choice(m, 3, replace=False)\<close>: three distinct indices below \<open>m\<close>.\<close>

definition choice_ok :: "nat \<Rightarrow> nat list \<Rightarrow> bool" where
  "choice_ok mm c = (length c = 3 \<and> distinct c \<and> list_all (\<lambda>r. r < mm) c)"

section \<open>Packer (packer.py)\<close>
















section \<open>Manifest (archive/manifest.py)\<close>

text \<open>
  The manifest object holds one dictionary.  \<open>Manifest.load\<close> stores whatever JSON value the
  file holds, so the field is a JSON value.  A manifest file is modelled by the JSON value
  it stores: \<open>json.dump\<close> followed by \<open>json.load\<close> gives the value back.
  \<open>json.dumps(..., sort_keys=True)\<close> is a parameter \<open>dumps\<close>.
\<close>

text \<open>\<open>d.get(key, default)\<close>; only a dictionary has the method.\<close>

definition dict_get :: "json \<Rightarrow> string \<Rightarrow> json \<Rightarrow> error + json" where
  "dict_get d key dflt =
     (case d of
        JObj kvs \<Rightarrow> Inr (case map_of kvs key of None \<Rightarrow> dflt | Some v \<Rightarrow> v)
      | _ \<Rightarrow> Inl AttributeError)"

text \<open>Python's truth value of a JSON value.\<close>

fun truthy :: "json \<Rightarrow> bool" where
  "truthy JNull = False"
| "truthy (JBool b) = b"
| "truthy (JInt i) = (i \<noteq> 0)"
| "truthy (JFloat x) = (x \<noteq> 0)"
| "truthy (JStr s) = (s \<noteq> [])"
| "truthy (JArr xs) = (xs \<noteq> [])"
| "truthy (JObj kvs) = (kvs \<noteq> [])"

record Manifest =
  data :: json

text \<open>
  \<open>compute_hash\<close>: a shallow copy without the key \<open>integrity\<close>, serialised with sorted
  keys and hashed.  (\<open>copy\<close> and \<open>pop\<close> fail on other values than a dictionary.)
\<close>

definition compute_hash ::
  "(bytes \<Rightarrow> 256 word) \<Rightarrow> (json \<Rightarrow> string) \<Rightarrow> Manifest \<Rightarrow> error + string" where
  "compute_hash sha256 dumps M =
     (case data M of
        JObj kvs \<Rightarrow> Inr (hexdigest sha256 (str_encode (dumps (JObj (AList.delete ''integrity'' kvs)))))
      | JArr xs \<Rightarrow> Inl TypeError
      | _ \<Rightarrow> Inl AttributeError)"


text \<open>
  \<open>load\<close>, from the JSON value read from the file: the stored hash is
  \<open>data.get("integrity", {}).get("manifest_hash")\<close>; only when it is truthy is the hash
  recomputed and compared.
\<close>

definition load ::
  "(bytes \<Rightarrow> 256 word) \<Rightarrow> (json \<Rightarrow> string) \<Rightarrow> json \<Rightarrow> error + Manifest" where
  "load sha256 dumps file =
     (let manifest = \<lparr>data = file\<rparr> in
      case dict_get file ''integrity'' (JObj []) of
        Inl e \<Rightarrow> Inl e
      | Inr integ \<Rightarrow>
          (case dict_get integ ''manifest_hash'' JNull of
             Inl e \<Rightarrow> Inl e
           | Inr stored_hash \<Rightarrow>
               if truthy stored_hash then
                 (case compute_hash sha256 dumps manifest of
                    Inl e \<Rightarrow> Inl e
                  | Inr computed_hash \<Rightarrow>
                      if stored_hash \<noteq> JStr computed_hash
                      then Inl (ValueError ''Manifest integrity check failed'')
                      else Inr manifest)
               else Inr manifest))"

text \<open>
  A small stand-in for the serialiser, to run the definitions on: it prints the keys of
  a dictionary in sorted order and the scalars it holds.
\<close>

fun show_json :: "json \<Rightarrow> string" where
  "show_json JNull = ''null''"
| "show_json (JBool b) = (if b then ''true'' else ''false'')"
| "show_json (JInt i) = (if i < 0 then ''-'' else '''') @ replicate (nat \<bar>i\<bar>) CHR ''1'' @ ''.''"
| "show_json (JFloat x) = ''float''"
| "show_json (JStr s) = ''\"'' @ s @ ''\"''"
| "show_json (JArr xs) = ''['' @ concat (map (\<lambda>x. show_json x @ '','') xs) @ '']''"
| "show_json (JObj kvs) =
     ''{'' @ concat (map (\<lambda>(k, v). k @ '':'' @ show_json v @ '','') (sort_key fst kvs)) @ ''}''"

section \<open>Merkle tree (codecs/hashing.py)\<close>

text \<open>
  The tree object: the leaves, the fanout (a Python integer), the list of levels from the
  leaf hashes up to the root level, and the root hash.
\<close>

record MerkleTree =
  leaves :: "bytes list"
  fanout :: int
  tree :: "bytes list list"
  merkle_root :: bytes

text \<open>
  One pass of the inner \<open>for\<close> loop of \<open>_build_tree\<close> with a positive step \<open>f\<close>: the
  groups start at \<open>0, f, 2f, ...\<close> below the length of the level, and each is the slice
  \<open>current_level[i:i+f]\<close>.
\<close>

definition next_level :: "(bytes \<Rightarrow> 256 word) \<Rightarrow> nat \<Rightarrow> bytes list \<Rightarrow> bytes list" where
  "next_level sha256 f level =
     map (\<lambda>g. digest sha256 (concat (take f (drop (g * f) level))))
       [0..<(length level + f - 1) div f]"

text \<open>
  The \<open>while\<close> loop of \<open>_build_tree\<close>.  \<open>range\<close> raises \<open>ValueError\<close> on step 0 and is
  empty for a negative step.  With step 1 a level of two or more nodes is followed by a
  level of the same length, and the loop does not end: the model is a partial function,
  \<open>None\<close> when the loop runs forever.
\<close>

partial_function (option) build_loop ::
  "(bytes \<Rightarrow> 256 word) \<Rightarrow> int \<Rightarrow> bytes list \<Rightarrow> bytes list list \<Rightarrow> (error + bytes list list) option" where
  "build_loop sha256 f current_level tr =
     (if 1 < length current_level then
        (if f = 0 then Some (Inl (ValueError ''range() arg 3 must not be zero''))
         else build_loop sha256 f
                (if f < 0 then [] else next_level sha256 (nat f) current_level)
                (tr @ [if f < 0 then [] else next_level sha256 (nat f) current_level]))
      else Some (Inr tr))"

definition build_tree ::
  "(bytes \<Rightarrow> 256 word) \<Rightarrow> bytes list \<Rightarrow> int \<Rightarrow> (error + bytes list list) option" where
  "build_tree sha256 lvs f =
     (if lvs = [] then Some (Inr [])
      else build_loop sha256 f (map (digest sha256) lvs) [map (digest sha256) lvs])"

text \<open>The constructor; \<open>self.tree[-1][0]\<close> raises \<open>IndexError\<close> on an empty last level.\<close>

definition MerkleTree_init ::
  "(bytes \<Rightarrow> 256 word) \<Rightarrow> bytes list \<Rightarrow> int \<Rightarrow> (error + MerkleTree) option" where
  "MerkleTree_init sha256 lvs f =
     (case build_tree sha256 lvs f of
        None \<Rightarrow> None
      | Some (Inl e) \<Rightarrow> Some (Inl e)
      | Some (Inr tr) \<Rightarrow>
          if tr = [] then Some (Inr \<lparr>leaves = lvs, fanout = f, tree = tr, merkle_root = []\<rparr>)
          else if last tr = [] then Some (Inl IndexError)
          else Some (Inr \<lparr>leaves = lvs, fanout = f, tree = tr, merkle_root = last tr ! 0\<rparr>))"

text \<open>
  \<open>get_proof\<close>, for an index that is not negative: the loop over \<open>self.tree[:-1]\<close>.
  With fanout 0 the floor division raises; with a negative fanout every range is empty.
\<close>

primrec proof_loop :: "int \<Rightarrow> bytes list list \<Rightarrow> nat \<Rightarrow> error + string list" where
  "proof_loop f [] current_index = Inr []"
| "proof_loop f (level # levels) current_index =
     (if f = 0 then Inl ZeroDivisionError
      else if f < 0 then Inr []
      else
        let group_index = current_index div nat f;
            group_start = group_index * nat f;
            siblings = map (\<lambda>i. hex (level ! i))
                         (filter (\<lambda>i. i \<noteq> current_index)
                            [group_start..<min (group_start + nat f) (length level)])
        in case proof_loop f levels group_index of
             Inl e \<Rightarrow> Inl e
           | Inr rest \<Rightarrow> Inr (siblings @ rest))"

definition get_proof :: "MerkleTree \<Rightarrow> nat \<Rightarrow> error + string list" where
  "get_proof T index =
     (if length (leaves T) \<le> index then Inl (ValueError ''Index out of range'')
      else proof_loop (fanout T) (butlast (tree T)) index)"

text \<open>
  \<open>verify_proof\<close>.  The inner loop runs over \<open>i = 0, 1, ...\<close> below the fanout until
  \<open>group_start + i\<close> leaves the level; it returns \<open>False\<close> (here \<open>None\<close>) when the proof is
  exhausted, and \<open>bytes.fromhex\<close> may raise.
\<close>

primrec group_loop ::
  "nat list \<Rightarrow> nat \<Rightarrow> bytes \<Rightarrow> string list \<Rightarrow> bytes list \<Rightarrow> nat \<Rightarrow> error + (bytes list \<times> nat) option" where
  "group_loop [] position_in_group current_hash prf group_hashes proof_index =
     Inr (Some (group_hashes, proof_index))"
| "group_loop (i # is) position_in_group current_hash prf group_hashes proof_index =
     (if i = position_in_group
      then group_loop is position_in_group current_hash prf (group_hashes @ [current_hash]) proof_index
      else if length prf \<le> proof_index then Inr None
      else case fromhex (prf ! proof_index) of
             Inl e \<Rightarrow> Inl e
           | Inr h \<Rightarrow> group_loop is position_in_group current_hash prf (group_hashes @ [h])
                        (proof_index + 1))"

primrec verify_loop ::
  "(bytes \<Rightarrow> 256 word) \<Rightarrow> int \<Rightarrow> bytes list list \<Rightarrow> bytes \<Rightarrow> nat \<Rightarrow> string list \<Rightarrow> nat \<Rightarrow>
   error + bytes option" where
  "verify_loop sha256 f [] current_hash current_index prf proof_index = Inr (Some current_hash)"
| "verify_loop sha256 f (level # levels) current_hash current_index prf proof_index =
     (if f = 0 then Inl ZeroDivisionError
      else if f < 0 then verify_loop sha256 f levels (digest sha256 []) 0 prf proof_index
      else
        let group_index = current_index div nat f;
            group_start = group_index * nat f;
            position_in_group = current_index mod nat f
        in case group_loop [0..<min (nat f) (length level - group_start)] position_in_group
                  current_hash prf [] proof_index of
             Inl e \<Rightarrow> Inl e
           | Inr None \<Rightarrow> Inr None
           | Inr (Some (group_hashes, proof_index')) \<Rightarrow>
               verify_loop sha256 f levels (digest sha256 (concat group_hashes)) group_index
                 prf proof_index')"

definition verify_proof ::
  "(bytes \<Rightarrow> 256 word) \<Rightarrow> MerkleTree \<Rightarrow> bytes \<Rightarrow> nat \<Rightarrow> string list \<Rightarrow> error + bool" where
  "verify_proof sha256 T leaf index prf =
     (case verify_loop sha256 (fanout T) (butlast (tree T)) (digest sha256 leaf) index prf 0 of
        Inl e \<Rightarrow> Inl e
      | Inr None \<Rightarrow> Inr False
      | Inr (Some current_hash) \<Rightarrow> Inr (current_hash = merkle_root T))"

text \<open>
  The shape of a built tree: every level but the first is \<open>next_level\<close> of the one below.
\<close>

fun chain :: "(bytes \<Rightarrow> 256 word) \<Rightarrow> nat \<Rightarrow> bytes list list \<Rightarrow> bool" where
  "chain sha256 f [] = True"
| "chain sha256 f [a] = True"
| "chain sha256 f (a # b # levels) = (b = next_level sha256 f a \<and> chain sha256 f (b # levels))"

text \<open>
  What \<open>verify_proof\<close> computes from a leaf hash and the sibling hashes of a proof, level
  by level: the siblings of a level are put around the running hash at its position in
  the group, and the group is hashed.
\<close>

primrec climb :: "(bytes \<Rightarrow> 256 word) \<Rightarrow> nat \<Rightarrow> bytes list list \<Rightarrow> bytes \<Rightarrow> nat \<Rightarrow> bytes list \<Rightarrow> bytes" where
  "climb sha256 f [] current_hash current_index hs = current_hash"
| "climb sha256 f (level # levels) current_hash current_index hs =
     climb sha256 f levels
       (digest sha256
          (concat (take (current_index mod f)
                     (take (min f (length level - (current_index div f) * f) - 1) hs) @
                   current_hash #
                   drop (current_index mod f)
                     (take (min f (length level - (current_index div f) * f) - 1) hs))))
       (current_index div f)
       (drop (min f (length level - (current_index div f) * f) - 1) hs)"

text \<open>The sibling hashes \<open>get_proof\<close> collects, before they are written in hexadecimal.\<close>

primrec siblings_of :: "nat \<Rightarrow> bytes list list \<Rightarrow> nat \<Rightarrow> bytes list" where
  "siblings_of f [] = (\<lambda>current_index. [])"
| "siblings_of f (level # levels) = (\<lambda>current_index.
     map (\<lambda>i. level ! i)
       (filter (\<lambda>i. i \<noteq> current_index)
          [(current_index div f) * f..<min ((current_index div f) * f + f) (length level)])
     @ siblings_of f levels (current_index div f))"

text \<open>An index stays inside the levels it passes through on the way up.\<close>

primrec in_range :: "nat \<Rightarrow> bytes list list \<Rightarrow> nat \<Rightarrow> bool" where
  "in_range f [] = (\<lambda>current_index. True)"
| "in_range f (level # levels) = (\<lambda>current_index.
     current_index < length level \<and> in_range f levels (current_index div f))"

section \<open>Results\<close>

subsection \<open>Compression\<close>

text \<open>
  C6 as stated: an unknown codec name makes \<open>decompress_data\<close> fail.  It does not: with
  the codec \<open>brotli\<close> the call returns its input.
\<close>

theorem decompress_unknown_codec_counterexample:
  "decompress_data (\<lambda>d. Inl LibraryError) (\<lambda>d. Inl LibraryError) [1, 2, 3]
     [(''codec'', JStr ''brotli''), (''level'', JInt 6)] = Inr [1, 2, 3]"
  by (simp add: decompress_data_def)

text \<open>
  C6 (amended): when the \<open>codec\<close> entry of \<open>codec_info\<close> is neither \<open>zstd\<close> nor \<open>xz\<close>,
  \<open>decompress_data\<close> returns the input bytes unchanged, whatever the two library
  decompressors do; no error is raised for an unknown codec.
\<close>

theorem decompress_unknown_codec_passthrough:
  assumes "map_of codec_info ''codec'' = Some codec"
    and "codec \<noteq> JStr ''zstd''" and "codec \<noteq> JStr ''xz''"
  shows "decompress_data zstd_decompress lzma_decompress payload codec_info = Inr payload"
  using assms by (simp add: decompress_data_def)

theorem decompress_unknown_codec_passthrough_witness:
  "decompress_data (\<lambda>d. Inl LibraryError) (\<lambda>d. Inl LibraryError) [7, 8]
     [(''codec'', JStr ''lz4'')] = Inr [7, 8]"
  using decompress_unknown_codec_passthrough
    [of "[(''codec'', JStr ''lz4'')]" "JStr ''lz4''" "\<lambda>d. Inl LibraryError" "\<lambda>d. Inl LibraryError" "[7, 8]"]
  by simp

subsection \<open>Voxel mapper\<close>

lemma map_of_range_table:
  "map_of (map (\<lambda>symbol. (int symbol, f symbol)) [0..<n]) x =
     (if 0 \<le> x \<and> x < int n then Some (f (nat x)) else None)"
proof (cases "0 \<le> x \<and> x < int n")
  case True
  then have k: "nat x < n" "int (nat x) = x" by auto
  have "(int (nat x), f (nat x)) \<in> (\<lambda>symbol. (int symbol, f symbol)) ` set [0..<n]"
    using k(1) by (intro imageI) simp
  then have "(int (nat x), f (nat x)) \<in> set (map (\<lambda>symbol. (int symbol, f symbol)) [0..<n])"
    by (simp only: set_map)
  moreover have "distinct (map fst (map (\<lambda>symbol. (int symbol, f symbol)) [0..<n]))"
    by (simp add: distinct_map comp_def inj_on_def)
  ultimately have "map_of (map (\<lambda>symbol. (int symbol, f symbol)) [0..<n]) (int (nat x)) = Some (f (nat x))"
    by (rule map_of_is_SomeI [rotated])
  then have "map_of (map (\<lambda>symbol. (int symbol, f symbol)) [0..<n]) x = Some (f (nat x))"
    unfolding k(2) .
  with True show ?thesis by simp
next
  case False
  then have "x \<notin> int ` {0..<n}" by auto
  then have "map_of (map (\<lambda>symbol. (int symbol, f symbol)) [0..<n]) x = None"
    by (simp add: map_of_eq_None_iff image_image)
  with False show ?thesis by simp
qed

lemma symbol_table_lookup:
  assumes "VoxelMapper_init md = Inr M"
  shows "map_of (symbol_table M) x = None \<longleftrightarrow> \<not> (0 \<le> x \<and> x < 2 ^ bits_per_voxel M)"
  using assms
  by (auto simp: VoxelMapper_init_def build_symbol_table_def map_of_range_table Let_def
      split: if_splits)

lemma symbol_table_zero:
  assumes "VoxelMapper_init md = Inr M"
  shows "map_of (symbol_table M) 0 \<noteq> None"
  using symbol_table_lookup [OF assms, of 0] by simp

lemma voxel_of_total:
  assumes "VoxelMapper_init md = Inr M"
  shows "\<exists>v. voxel_of M symbol = Inr v \<and>
           map_of (symbol_table M) (if 0 \<le> symbol \<and> symbol < 2 ^ bits_per_voxel M then symbol else 0) = Some v"
proof (cases "map_of (symbol_table M) symbol")
  case None
  with symbol_table_lookup [OF assms, of symbol] symbol_table_zero [OF assms]
  show ?thesis by (auto simp: voxel_of_def)
next
  case (Some v)
  with symbol_table_lookup [OF assms, of symbol]
  show ?thesis by (auto simp: voxel_of_def)
qed

text \<open>
  C10: \<open>symbols_to_voxels\<close> is total over arbitrary symbol arrays.  For a mapper built by
  the constructor (mode \<open>3bit\<close> or \<open>5bit\<close>) and any list of integers it returns two
  arrays as long as the input, and position \<open>i\<close> holds the table entry of the symbol when
  the symbol lies in \<open>[0, 2^b)\<close> and the entry of symbol 0 otherwise; no error is raised.
\<close>

theorem symbols_to_voxels_total:
  assumes "VoxelMapper_init md = Inr M"
  shows "\<exists>angles retardances.
           symbols_to_voxels M symbols = Inr (angles, retardances) \<and>
           length angles = length symbols \<and> length retardances = length symbols \<and>
           (\<forall>i < length symbols.
              map_of (symbol_table M)
                (if 0 \<le> symbols ! i \<and> symbols ! i < 2 ^ bits_per_voxel M then symbols ! i else 0)
              = Some (angles ! i, retardances ! i))"
proof (induction symbols)
  case Nil
  show ?case by simp
next
  case (Cons s symbols)
  then obtain angles retardances where
    rest: "symbols_to_voxels M symbols = Inr (angles, retardances)"
      "length angles = length symbols" "length retardances = length symbols"
      "\<forall>i < length symbols.
         map_of (symbol_table M)
           (if 0 \<le> symbols ! i \<and> symbols ! i < 2 ^ bits_per_voxel M then symbols ! i else 0)
         = Some (angles ! i, retardances ! i)"
    by blast
  from voxel_of_total [OF assms, of s] obtain a r where
    v: "voxel_of M s = Inr (a, r)"
      "map_of (symbol_table M) (if 0 \<le> s \<and> s < 2 ^ bits_per_voxel M then s else 0) = Some (a, r)"
    by (cases "voxel_of M s") auto
  have "symbols_to_voxels M (s # symbols) = Inr (a # angles, r # retardances)"
    using rest(1) v(1) by simp
  moreover have "\<forall>i < length (s # symbols).
         map_of (symbol_table M)
           (if 0 \<le> (s # symbols) ! i \<and> (s # symbols) ! i < 2 ^ bits_per_voxel M
            then (s # symbols) ! i else 0)
         = Some ((a # angles) ! i, (r # retardances) ! i)"
  proof (intro allI impI)
    fix i assume "i < length (s # symbols)"
    then show "map_of (symbol_table M)
           (if 0 \<le> (s # symbols) ! i \<and> (s # symbols) ! i < 2 ^ bits_per_voxel M
            then (s # symbols) ! i else 0)
         = Some ((a # angles) ! i, (r # retardances) ! i)"
      using v(2) rest(4) by (cases i) auto
  qed
  ultimately show ?case using rest(2,3) by auto
qed

theorem symbols_to_voxels_total_witness:
  "\<exists>M angles retardances. VoxelMapper_init ''3bit'' = Inr M \<and>
       symbols_to_voxels M [5, 9, - 1] = Inr (angles, retardances) \<and>
       length angles = 3 \<and> length retardances = 3 \<and>
       map_of (symbol_table M) 5 = Some (angles ! 0, retardances ! 0) \<and>
       map_of (symbol_table M) 0 = Some (angles ! 1, retardances ! 1) \<and>
       map_of (symbol_table M) 0 = Some (angles ! 2, retardances ! 2)"
proof -
  obtain M where M: "VoxelMapper_init ''3bit'' = Inr M"
    by (simp add: VoxelMapper_init_def)
  then have b: "bits_per_voxel M = 3"
    by (auto simp: VoxelMapper_init_def)
  let ?s = "[5, 9, - 1] :: int list"
  from symbols_to_voxels_total [OF M, of ?s]
  obtain angles retardances where
    r: "symbols_to_voxels M ?s = Inr (angles, retardances)"
      "length angles = length ?s" "length retardances = length ?s"
      "\<forall>i < length ?s.
         map_of (symbol_table M)
           (if 0 \<le> ?s ! i \<and> ?s ! i < 2 ^ bits_per_voxel M then ?s ! i else 0)
         = Some (angles ! i, retardances ! i)"
    by blast
  from r(4) [rule_format, of 0] r(4) [rule_format, of 1] r(4) [rule_format, of 2]
  have "map_of (symbol_table M) 5 = Some (angles ! 0, retardances ! 0)"
    and "map_of (symbol_table M) 0 = Some (angles ! 1, retardances ! 1)"
    and "map_of (symbol_table M) 0 = Some (angles ! 2, retardances ! 2)"
    by (simp_all add: b)
  with M r(1,2,3) show ?thesis by auto
qed


lemma voxel_of_ignores_gray_codes:
  "voxel_of (M\<lparr>gray_codes := g\<rparr>) symbol = voxel_of M symbol"
  by (simp add: voxel_of_def split: option.splits)

lemma symbols_to_voxels_ignores_gray_codes:
  "symbols_to_voxels (M\<lparr>gray_codes := g\<rparr>) symbols = symbols_to_voxels M symbols"
  by (induction symbols) (auto simp: voxel_of_ignores_gray_codes split: sum.splits prod.splits)

text \<open>
  C4: nearest neighbours in angle or retardance differ in exactly one bit.  The code maps
  the symbol value itself to the voxel (\<open>symbol mod O\<close>, \<open>symbol div O\<close>) and never applies
  \<open>gray_codes\<close>: in 3-bit mode the symbols 1 and 2 are written to the voxels (45, 1/4) and
  (90, 1/4), nearest neighbours in angle, and their bit strings 001 and 010 differ in two
  bits.
\<close>

theorem voxel_mapping_not_gray:
  "case VoxelMapper_init ''3bit'' of
     Inl e \<Rightarrow> False
   | Inr M \<Rightarrow>
       symbols_to_voxels M [1, 2] = Inr ([45, 90], [1/4, 1/4]) \<and>
       nearest_in_angle M 1 2 \<and>
       symbols_to_bits M [1] = [0, 0, 1] \<and> symbols_to_bits M [2] = [0, 1, 0] \<and>
       hamming (symbols_to_bits M [1]) (symbols_to_bits M [2]) = 2"
  by code_simp

text \<open>
  In 5-bit mode the symbols 8 and 16 are nearest neighbours in retardance; their bit
  strings differ in two bits, and so would their entries of \<open>gray_codes\<close>.  In 3-bit mode
  the table entries of the retardance neighbours 0 and 4 differ in two bits as well.
\<close>

lemma voxel_mapping_not_gray_5bit:
  "case VoxelMapper_init ''5bit'' of
     Inl e \<Rightarrow> False
   | Inr M \<Rightarrow>
       symbols_to_voxels M [8, 16] = Inr ([0, 0], [1/2, 3/4]) \<and>
       nearest_in_retardance M 8 16 \<and>
       hamming (symbols_to_bits M [8]) (symbols_to_bits M [16]) = 2 \<and>
       gray_bits M 8 = Some [0, 1, 1, 0, 0] \<and> gray_bits M 16 = Some [1, 1, 0, 0, 0] \<and>
       hamming [0, 1, 1, 0, 0] [1, 1, 0, 0, 0] = 2"
  by code_simp

lemma gray_table_3bit_retardance:
  "case VoxelMapper_init ''3bit'' of
     Inl e \<Rightarrow> False
   | Inr M \<Rightarrow>
       nearest_in_retardance M 0 4 \<and>
       gray_bits M 0 = Some [0, 0, 0] \<and> gray_bits M 4 = Some [1, 1, 0]"
  by code_simp

subsection \<open>LDPC codec\<close>























text \<open>
  The matrix of the counterexample does not depend on the random draws: with three rows
  every admissible draw fills the whole column.
\<close>

lemma choice_of_three:
  assumes "choice_ok 3 c"
  shows "set c = {0..<3}"
proof -
  from assms have "card (set c) = 3" and "set c \<subseteq> {0..<3}"
    by (auto simp: choice_ok_def distinct_card list_all_iff)
  then show ?thesis by (intro card_subset_eq) auto
qed

lemma parity_matrix_three_checks:
  assumes "\<forall>i<nn. choice_ok 3 (choice 3 i)"
  shows "generate_parity_matrix choice nn 3 = Inr (replicate 3 (replicate nn 1))"
proof -
  have row: "map (\<lambda>i. if r \<in> set (choice 3 i) then 1 else 0) [0..<nn] = replicate nn (1::nat)"
    if "r < 3" for r
  proof -
    have "map (\<lambda>i. if r \<in> set (choice 3 i) then 1 else 0) [0..<nn] = map (\<lambda>i. 1::nat) [0..<nn]"
      by (rule map_cong [OF refl]) (use assms that choice_of_three in auto)
    then show ?thesis by (simp add: map_replicate_const)
  qed
  have "map (\<lambda>r. map (\<lambda>i. if r \<in> set (choice 3 i) then 1 else 0) [0..<nn]) [0..<3]
      = map (\<lambda>r. replicate nn (1::nat)) [0..<3]"
    by (rule map_cong [OF refl]) (use row in auto)
  then show ?thesis
    by (simp add: generate_parity_matrix_def map_replicate_const)
qed

subsection \<open>Interleaver\<close>

lemma block_interleave_fresh:
  assumes contract: "\<forall>g len. is_permutation_of_range (fst (permutation g len)) len"
    and init: "Interleaver_init default_rng sp dp sd = Inr I"
  shows "\<exists>g. default_rng sd = Inr g \<and> rng I = g \<and>
           block_interleave permutation I xs =
             Inr ((map (\<lambda>j. xs ! j) (fst (permutation g (length xs))), fst (permutation g (length xs))),
                  I\<lparr>rng := snd (permutation g (length xs))\<rparr>)"
proof -
  from init obtain g where g: "default_rng sd = Inr g" "rng I = g"
    by (auto simp: Interleaver_init_def split: sum.splits)
  obtain perm g' where pg: "permutation g (length xs) = (perm, g')"
    by (cases "permutation g (length xs)")
  from contract have "is_permutation_of_range (fst (permutation g (length xs))) (length xs)"
    by blast
  then have "list_all (\<lambda>j. j < length xs) perm"
    by (simp add: is_permutation_of_range_def pg list_all_iff)
  then have "block_interleave permutation I xs =
             Inr ((map (\<lambda>j. xs ! j) (fst (permutation g (length xs))), fst (permutation g (length xs))),
                  I\<lparr>rng := snd (permutation g (length xs))\<rparr>)"
    using g(2) pg by (simp add: block_interleave_def)
  with g show ?thesis by blast
qed

text \<open>
  C9: two interleavers freshly constructed with the same seed (whatever their span and
  depth) draw the same permutation on their first \<open>block_interleave\<close> over inputs of the
  same length \<open>N\<close>, and it is the permutation \<open>decode_archive\<close> regenerates from the
  seed and \<open>N\<close>: the permutation is a function of the seed and the length alone.
\<close>

theorem interleaver_permutation_deterministic:
  assumes contract: "\<forall>g len. is_permutation_of_range (fst (permutation g len)) len"
    and init1: "Interleaver_init default_rng span1 depth1 sd = Inr I1"
    and init2: "Interleaver_init default_rng span2 depth2 sd = Inr I2"
    and len: "length xs = N" "length ys = N"
  shows "\<exists>p I1' I2'.
           block_interleave permutation I1 xs = Inr ((map (\<lambda>j. xs ! j) p, p), I1') \<and>
           block_interleave permutation I2 ys = Inr ((map (\<lambda>j. ys ! j) p, p), I2') \<and>
           regenerate_permutation default_rng permutation sd N = Inr p \<and>
           is_permutation_of_range p N"
proof -
  from block_interleave_fresh [OF contract init1, of xs] obtain g where
    g: "default_rng sd = Inr g"
    and r1: "block_interleave permutation I1 xs =
             Inr ((map (\<lambda>j. xs ! j) (fst (permutation g N)), fst (permutation g N)),
                  I1\<lparr>rng := snd (permutation g N)\<rparr>)"
    using len(1) by auto
  from block_interleave_fresh [OF contract init2, of ys] g have
    r2: "block_interleave permutation I2 ys =
             Inr ((map (\<lambda>j. ys ! j) (fst (permutation g N)), fst (permutation g N)),
                  I2\<lparr>rng := snd (permutation g N)\<rparr>)"
    using len(2) by auto
  have r3: "regenerate_permutation default_rng permutation sd N = Inr (fst (permutation g N))"
    using g by (simp add: regenerate_permutation_def)
  from contract have "is_permutation_of_range (fst (permutation g N)) N" by blast
  with r1 r2 r3 show ?thesis by blast
qed

lemma rotation_permutation_contract:
  "\<forall>g len. is_permutation_of_range (fst (rotation_permutation g len)) len"
  by (simp add: is_permutation_of_range_def rotation_permutation_def)

theorem interleaver_permutation_deterministic_witness:
  "\<exists>p I1' I2'.
     block_interleave rotation_permutation \<lparr>span = 10000, depth = 16, seed = 2, rng = 2\<rparr> ''abcde''
       = Inr ((map (\<lambda>j. ''abcde'' ! j) p, p), I1') \<and>
     block_interleave rotation_permutation \<lparr>span = 5000, depth = 8, seed = 2, rng = 2\<rparr> ''vwxyz''
       = Inr ((map (\<lambda>j. ''vwxyz'' ! j) p, p), I2') \<and>
     regenerate_permutation counter_rng rotation_permutation 2 5 = Inr p \<and>
     is_permutation_of_range p 5"
proof -
  have i1: "Interleaver_init counter_rng 10000 16 2 = Inr \<lparr>span = 10000, depth = 16, seed = 2, rng = 2\<rparr>"
    by (simp add: Interleaver_init_def counter_rng_def)
  have i2: "Interleaver_init counter_rng 5000 8 2 = Inr \<lparr>span = 5000, depth = 8, seed = 2, rng = 2\<rparr>"
    by (simp add: Interleaver_init_def counter_rng_def)
  show ?thesis
    by (rule interleaver_permutation_deterministic [OF rotation_permutation_contract i1 i2]) simp_all
qed

text \<open>
  Only the first call is covered: a call advances the generator held by the object, and
  the next call on the same object draws from the advanced state.
\<close>

lemma second_call_differs:
  "case block_interleave rotation_permutation \<lparr>span = 10000, depth = 16, seed = 2, rng = 2\<rparr> ''abcde'' of
     Inl e \<Rightarrow> False
   | Inr ((out1, p1), I') \<Rightarrow>
       (case block_interleave rotation_permutation I' ''abcde'' of
          Inl e \<Rightarrow> False
        | Inr ((out2, p2), I'') \<Rightarrow> p1 = [2, 3, 4, 0, 1] \<and> p2 = [3, 4, 0, 1, 2])"
  by code_simp

subsection \<open>Packer\<close>











subsection \<open>Hexadecimal strings and digests\<close>





lemma byte_of_nibbles: "of_nat (16 * (unat b div 16) + unat b mod 16) = (b :: byte)"
  by simp








subsection \<open>Manifest\<close>



text \<open>
  C8: when the stored JSON has no \<open>integrity.manifest_hash\<close> entry (no \<open>integrity\<close>
  block, or a block without the key), \<open>load\<close> returns the manifest as stored and raises
  nothing, whatever the hash function and the serialiser are: nothing is verified.
\<close>

theorem load_without_stored_hash:
  assumes "map_of kvs ''integrity'' = None \<or>
           (\<exists>integ. map_of kvs ''integrity'' = Some (JObj integ) \<and> map_of integ ''manifest_hash'' = None)"
  shows "load sha256 dumps (JObj kvs) = Inr \<lparr>data = JObj kvs\<rparr>"
  using assms by (auto simp: load_def dict_get_def)

theorem load_without_stored_hash_witness:
  "load sum_hash show_json (JObj [(''version'', JStr ''1.0.0''), (''profile'', JStr ''B'')])
     = Inr \<lparr>data = JObj [(''version'', JStr ''1.0.0''), (''profile'', JStr ''B'')]\<rparr> \<and>
   load sum_hash show_json
       (JObj [(''profile'', JStr ''B''), (''integrity'', JObj [(''merkle_root'', JStr ''00'')])])
     = Inr \<lparr>data = JObj [(''profile'', JStr ''B''), (''integrity'', JObj [(''merkle_root'', JStr ''00'')])]\<rparr>"
  using load_without_stored_hash [of "[(''version'', JStr ''1.0.0''), (''profile'', JStr ''B'')]" sum_hash show_json]
    load_without_stored_hash
      [of "[(''profile'', JStr ''B''), (''integrity'', JObj [(''merkle_root'', JStr ''00'')])]" sum_hash show_json]
  by simp




end
